theory Spec2Isabelle
  imports Complex_Main
begin

section \<open>Numbers\<close>

text \<open>
  The program computes with Go's \<^verbatim>\<open>float64\<close>. A finite \<^verbatim>\<open>float64\<close> is modelled as a
  \<^typ>\<open>real\<close> and its arithmetic as exact: rounding, overflow to infinity and the sign of
  zero are left out. The values of a vector and of a car are finite (the data model of the
  repository knows no other), so \<^verbatim>\<open>Vector\<close> and \<^verbatim>\<open>CarModel\<close> hold reals.

  HOL's division and logarithm are total (\<open>x / 0 = 0\<close>, \<open>ln (- x) = ln x\<close>); Go's are not
  that: a float division by zero gives an infinity or NaN and never panics, and
  \<^verbatim>\<open>math.Log\<close> of a non-positive number gives \<open>-Inf\<close> or NaN. Wherever the source divides
  by a number that it has not tested against zero, or takes a logarithm, the result is a
  \<open>float64\<close> below, with the non-finite values as constructors.
\<close>

datatype float64 = Fin real | PInf | NInf | NaN

text \<open>\<^verbatim>\<open>x / y\<close> on two finite operands; a zero divisor is \<open>+0\<close>.\<close>

definition fdiv :: "real \<Rightarrow> real \<Rightarrow> float64" where
  "fdiv x y =
     (if y \<noteq> 0 then Fin (x / y)
      else if 0 < x then PInf else if x < 0 then NInf else NaN)"

text \<open>\<^verbatim>\<open>a - b\<close> and \<^verbatim>\<open>a / b\<close> on operands that may be infinite or NaN (IEEE 754).\<close>

fun f64_sub :: "float64 \<Rightarrow> float64 \<Rightarrow> float64" where
  "f64_sub NaN _ = NaN"
| "f64_sub _ NaN = NaN"
| "f64_sub (Fin x) (Fin y) = Fin (x - y)"
| "f64_sub (Fin x) PInf = NInf"
| "f64_sub (Fin x) NInf = PInf"
| "f64_sub PInf PInf = NaN"
| "f64_sub PInf _ = PInf"
| "f64_sub NInf NInf = NaN"
| "f64_sub NInf _ = NInf"

fun f64_div :: "float64 \<Rightarrow> float64 \<Rightarrow> float64" where
  "f64_div NaN _ = NaN"
| "f64_div _ NaN = NaN"
| "f64_div (Fin x) (Fin y) = fdiv x y"
| "f64_div (Fin x) _ = Fin 0"
| "f64_div PInf (Fin y) = (if 0 \<le> y then PInf else NInf)"
| "f64_div NInf (Fin y) = (if 0 \<le> y then NInf else PInf)"
| "f64_div _ _ = NaN"

text \<open>\<^verbatim>\<open>a < b\<close> and \<^verbatim>\<open>a > b\<close>: every comparison with NaN is false.\<close>

fun f64_less :: "float64 \<Rightarrow> float64 \<Rightarrow> bool" where
  "f64_less NaN _ = False"
| "f64_less _ NaN = False"
| "f64_less (Fin x) (Fin y) = (x < y)"
| "f64_less (Fin x) PInf = True"
| "f64_less (Fin x) NInf = False"
| "f64_less PInf _ = False"
| "f64_less NInf NInf = False"
| "f64_less NInf _ = True"

definition f64_greater :: "float64 \<Rightarrow> float64 \<Rightarrow> bool" where
  "f64_greater a b = f64_less b a"

text \<open>\<^verbatim>\<open>math.Log(x)\<close> for finite \<open>x\<close>: \<open>Log(0) = -Inf\<close>, \<open>Log(x < 0) = NaN\<close>.\<close>

definition Log :: "real \<Rightarrow> float64" where
  "Log x = (if 0 < x then Fin (ln x) else if x = 0 then NInf else NaN)"

text \<open>
  \<^verbatim>\<open>math.Atan2(y, x)\<close> for finite operands, with its special cases at \<open>x = 0\<close>; the
  two zeros are one number here, and \<open>Atan2(0, x < 0)\<close> is taken at \<open>+0\<close>.
\<close>

definition Atan2 :: "real \<Rightarrow> real \<Rightarrow> real" where
  "Atan2 y x =
     (if 0 < x then arctan (y / x)
      else if x < 0 then (if 0 \<le> y then arctan (y / x) + pi else arctan (y / x) - pi)
      else if 0 < y then pi / 2 else if y < 0 then - (pi / 2) else 0)"

text \<open>
  A value computed from a float that may be infinite or NaN: \<open>Finite\<close> when all its
  numbers are finite, \<open>NonFinite\<close> when one of them is an infinity or NaN. The program
  goes on with such a value; nothing aborts.
\<close>

datatype 'a computed = Finite 'a | NonFinite

fun andThen :: "'a computed \<Rightarrow> ('a \<Rightarrow> 'b computed) \<Rightarrow> 'b computed" where
  "andThen NonFinite f = NonFinite"
| "andThen (Finite a) f = f a"

section \<open>geometry: vectors\<close>

record Vector =
  X :: real
  Y :: real

definition vec :: "real \<Rightarrow> real \<Rightarrow> Vector" where
  "vec x y = \<lparr>X = x, Y = y\<rparr>"

definition Null :: Vector where
  "Null = vec 0 0"

definition NullVector :: Vector where
  "NullVector = Null"

definition unitX :: Vector where
  "unitX = vec 1 0"

definition Add :: "Vector \<Rightarrow> Vector \<Rightarrow> Vector" where
  "Add v a = vec (X v + X a) (Y v + Y a)"

definition AddX :: "Vector \<Rightarrow> Vector \<Rightarrow> Vector" where
  "AddX v a = vec (X v + X a) (Y v)"

definition AddY :: "Vector \<Rightarrow> Vector \<Rightarrow> Vector" where
  "AddY v a = vec (X v) (Y v + Y a)"

definition Scale :: "Vector \<Rightarrow> real \<Rightarrow> Vector" where
  "Scale v s = vec (s * X v) (s * Y v)"

definition Len :: "Vector \<Rightarrow> real" where
  "Len v = sqrt (X v * X v + Y v * Y v)"

definition Norm :: "Vector \<Rightarrow> Vector" where
  "Norm v = (let len = Len v in if len \<noteq> 0 then Scale v (1 / len) else v)"

definition Dot :: "Vector \<Rightarrow> Vector \<Rightarrow> real" where
  "Dot v a = X v * X a + Y v * Y a"

definition Det :: "Vector \<Rightarrow> Vector \<Rightarrow> real" where
  "Det v a = X v * Y a - Y v * X a"

definition AngleBetween :: "Vector \<Rightarrow> Vector \<Rightarrow> real" where
  "AngleBetween v a = Atan2 (Det v a) (Dot v a)"

definition RotateAround :: "Vector \<Rightarrow> Vector \<Rightarrow> real \<Rightarrow> Vector" where
  "RotateAround v a angle =
     vec ((X v - X a) * cos angle + (Y a - Y v) * sin angle + X a)
         ((Y a - Y v) * cos angle - (X v - X a) * sin angle + Y a)"

section \<open>geometry: polygons\<close>

type_synonym Polygon = "Vector list"

definition NewPolygon :: "Vector list \<Rightarrow> Polygon" where
  "NewPolygon components = components"

definition Center :: "Polygon \<Rightarrow> Vector" where
  "Center p =
     (let len = real (length p) in
      if len = 0 then vec 0 0
      else Scale (fold (\<lambda>c r. Add r c) p (vec 0 0)) (1 / len))"

definition Translate :: "Polygon \<Rightarrow> Vector \<Rightarrow> Polygon" where
  "Translate p v = map (\<lambda>c. Add c v) p"

definition RotateAroundAll :: "Polygon \<Rightarrow> Vector \<Rightarrow> real \<Rightarrow> Polygon" where
  "RotateAroundAll p v angle = map (\<lambda>c. RotateAround c v angle) p"

text \<open>
  \<^verbatim>\<open>Interpolate\<close>, first loop: step \<open>i\<close> writes \<^verbatim>\<open>connections[i+1]\<close> and adds the
  distance from vertex \<open>i\<close> to vertex \<open>(i+1) % pointCount\<close> to \<^verbatim>\<open>length\<close>. The state
  is the pair of the slice and the sum; the slice starts as \<open>pointCount + 1\<close> zeros.
\<close>

definition connect :: "Polygon \<Rightarrow> nat \<Rightarrow> real list \<times> real \<Rightarrow> real list \<times> real" where
  "connect p i s =
     (case s of (connections, lengthSum) \<Rightarrow>
        let distance = Len (Add (p ! ((i + 1) mod length p)) (Scale (p ! i) (- 1)))
        in (connections[i + 1 := distance + connections ! i], lengthSum + distance))"

definition connections :: "Polygon \<Rightarrow> real list \<times> real" where
  "connections p = fold (connect p) [0 ..< length p] (replicate (length p + 1) 0, 0)"

text \<open>
  The point on the edge that ends at vertex \<open>i % pointCount\<close>: the body of the
  \<^verbatim>\<open>if\<close> of the second loop. The two quotients and \<open>k\<close> are floats that may be
  non-finite; a non-finite \<open>k\<close> makes both coordinates of the result non-finite.
\<close>

definition onEdge :: "Polygon \<Rightarrow> real list \<Rightarrow> real \<Rightarrow> real \<Rightarrow> nat \<Rightarrow> Vector computed" where
  "onEdge p cs lengthSum target i =
     (let a = fdiv (cs ! (i - 1)) lengthSum;
          b = fdiv (cs ! i) lengthSum;
          k = f64_div (f64_sub (Fin target) a) (f64_sub b a)
      in case k of
           Fin k' \<Rightarrow>
             Finite (Add (p ! (i - 1))
                         (Scale (Add (p ! (i mod length p)) (Scale (p ! (i - 1)) (- 1))) k'))
         | _ \<Rightarrow> NonFinite)"

text \<open>
  Second loop, over the indices \<open>1 .. pointCount\<close> that are left: the first index whose
  quotient \<^verbatim>\<open>connections[i]/length\<close> is above the target decides; when there is none the
  function returns \<^verbatim>\<open>Null\<close>.
\<close>

fun locate :: "Polygon \<Rightarrow> real list \<Rightarrow> real \<Rightarrow> real \<Rightarrow> nat list \<Rightarrow> Vector computed" where
  "locate p cs lengthSum target [] = Finite Null"
| "locate p cs lengthSum target (i # rest) =
     (if f64_less (Fin target) (fdiv (cs ! i) lengthSum) then onEdge p cs lengthSum target i
      else locate p cs lengthSum target rest)"

definition Interpolate :: "Polygon \<Rightarrow> real \<Rightarrow> Vector computed" where
  "Interpolate p v =
     (case connections p of (cs, lengthSum) \<Rightarrow>
        let target = min 1 (max 0 v)
        in locate p cs lengthSum target [1 ..< length p + 1])"

text \<open>
  The length of the edge that leaves vertex \<open>i\<close> (the \<^verbatim>\<open>distance\<close> of the first loop of
  \<^verbatim>\<open>Interpolate\<close>), and the sum of the first \<open>i\<close> of them; the properties below describe
  the slice \<^verbatim>\<open>connections\<close> by these.
\<close>

definition edge :: "Polygon \<Rightarrow> nat \<Rightarrow> real" where
  "edge p i = Len (Add (p ! ((i + 1) mod length p)) (Scale (p ! i) (- 1)))"

definition upTo :: "Polygon \<Rightarrow> nat \<Rightarrow> real" where
  "upTo p i = (\<Sum>j<i. edge p j)"

section \<open>The car model\<close>

record CarModel =
  Size :: Vector
  Position :: Vector
  Velocity :: Vector
  Acceleration :: Vector
  Bounds :: Polygon
  Mass :: real
  Rotation :: real
  Tension :: real
  Sensitivity :: real

text \<open>
  \<^verbatim>\<open>ApplyForce\<close> scales the force by \<^verbatim>\<open>1.0 / car.Mass\<close> with no test of the mass. With a
  zero mass the factor is \<open>+Inf\<close>, and the acceleration it is added to is infinite or NaN in
  both coordinates.
\<close>

definition ApplyForce :: "Vector \<Rightarrow> CarModel \<Rightarrow> CarModel computed" where
  "ApplyForce f car =
     (case fdiv 1 (Mass car) of
        Fin s \<Rightarrow> Finite (car\<lparr>Acceleration := Add (Acceleration car) (Scale f s)\<rparr>)
      | _ \<Rightarrow> NonFinite)"

definition Accelerate :: "real \<Rightarrow> CarModel \<Rightarrow> CarModel computed" where
  "Accelerate delta car = ApplyForce (Scale unitX delta) car"

text \<open>\<^verbatim>\<open>Break\<close> takes \<^verbatim>\<open>delta\<close> and divides the tension by the sensitivity, untested.\<close>

definition Break :: "real \<Rightarrow> CarModel \<Rightarrow> CarModel computed" where
  "Break delta car =
     (case fdiv (Tension car) (Sensitivity car) of
        Fin s \<Rightarrow>
          Finite (car\<lparr>Acceleration := Scale (Acceleration car) s,
                      Velocity := Scale (Velocity car) (Tension car)\<rparr>)
      | _ \<Rightarrow> NonFinite)"

definition Turn :: "real \<Rightarrow> CarModel \<Rightarrow> CarModel" where
  "Turn delta car = car\<lparr>Rotation := Rotation car + delta * Sensitivity car\<rparr>"

definition NewCar :: "real \<Rightarrow> real \<Rightarrow> real \<Rightarrow> real \<Rightarrow> real \<Rightarrow> CarModel" where
  "NewCar mass x y width height =
     (let size = vec width height in
      \<lparr>Size = size,
       Position = vec x y,
       Velocity = NullVector,
       Acceleration = NullVector,
       Bounds = NewPolygon [NullVector, AddX NullVector size, size, AddY NullVector size],
       Mass = mass,
       Rotation = 0,
       Tension = 0.9999,
       Sensitivity = 50\<rparr>)"

definition TurnCenter :: "CarModel \<Rightarrow> Vector" where
  "TurnCenter car = Center (Translate (Bounds car) (AddX Null (Scale (Size car) (- 0.2))))"

definition Update :: "real \<Rightarrow> CarModel \<Rightarrow> CarModel" where
  "Update delta car =
     (let car1 = car\<lparr>Acceleration := Scale (Acceleration car) (Tension car)\<rparr>;
          car2 = car1\<lparr>Velocity := Add (Velocity car1) (Scale (Acceleration car1) delta)\<rparr>
      in car2\<lparr>Position :=
                Add (Position car2)
                    (RotateAround (Scale (Velocity car2) delta) Null (Rotation car2))\<rparr>)"

text \<open>The car after \<open>n\<close> calls of \<^verbatim>\<open>Update(delta)\<close> with nothing else in between.\<close>

definition updates :: "real \<Rightarrow> nat \<Rightarrow> CarModel \<Rightarrow> CarModel" where
  "updates delta n car = (Update delta ^^ n) car"



section \<open>The controller\<close>

text \<open>
  The locals of \<^verbatim>\<open>SimpleCarControl.Feed\<close>. \<^verbatim>\<open>of\<close> is computed on every call, before it
  is tested: the argument of the logarithm is \<^verbatim>\<open>diffVector.Len() - 30\<close> whatever its sign.
\<close>

definition diffVector :: "Vector \<Rightarrow> CarModel \<Rightarrow> Vector" where
  "diffVector p car = Add p (Scale (Add (Position car) (TurnCenter car)) (- 1))"

definition diffAngle :: "Vector \<Rightarrow> CarModel \<Rightarrow> real" where
  "diffAngle p car =
     AngleBetween (diffVector p car) (RotateAround (Norm (Velocity car)) Null (Rotation car))"

definition br :: "Vector \<Rightarrow> CarModel \<Rightarrow> real" where
  "br p car = - Len (diffVector p car) + 100"

definition logArgument :: "Vector \<Rightarrow> CarModel \<Rightarrow> real" where
  "logArgument p car = Len (diffVector p car) - 30"

definition of_signal :: "Vector \<Rightarrow> CarModel \<Rightarrow> float64" where
  "of_signal p car = f64_div (Log (logArgument p car)) (Fin 10)"

text \<open>
  \<^verbatim>\<open>Feed\<close>: the turn (\<open>steer\<close>), then the two tests, in the order of the source. The
  line that prints \<^verbatim>\<open>diffAngle\<close> is left out. A car whose acceleration has become
  non-finite stays so under \<^verbatim>\<open>Break\<close>.
\<close>

definition steer :: "real \<Rightarrow> Vector \<Rightarrow> CarModel \<Rightarrow> CarModel" where
  "steer delta p car =
     (if diffAngle p car > 0 then Turn delta car
      else if diffAngle p car < 0 then Turn (- delta) car
      else car)"

definition Feed :: "real \<Rightarrow> Vector \<Rightarrow> CarModel \<Rightarrow> CarModel computed" where
  "Feed delta p car =
     (let car1 = steer delta p car;
          car2 = (if f64_greater (of_signal p car) (Fin 0) then Accelerate 0.1 car1
                  else Finite car1)
      in if br p car > 0 then andThen car2 (Break (br p car)) else car2)"

section \<open>The random path\<close>








section \<open>Vectors: properties\<close>

lemma vec_sel [simp]: "X (vec x y) = x" "Y (vec x y) = y"
  by (simp_all add: vec_def)

lemma vec_eq_iff [simp]: "vec x y = vec x' y' \<longleftrightarrow> x = x' \<and> y = y'"
  by (simp add: vec_def)

lemma vec_eta [simp]: "vec (X v) (Y v) = v"
  by (simp add: vec_def)

text \<open>
  C9. Rotating a point about itself returns the point, for every vector and every angle:
  both differences \<open>v.X - a.X\<close> and \<open>a.Y - v.Y\<close> are zero, and the pivot is added back.
\<close>

theorem RotateAround_self: "RotateAround v v angle = v"
  by (simp add: RotateAround_def)

section \<open>Polygons: properties\<close>

lemma edge_nonneg: "0 \<le> edge p i"
  by (simp add: edge_def Len_def)

lemma upTo_0 [simp]: "upTo p 0 = 0"
  by (simp add: upTo_def)

lemma upTo_Suc: "upTo p (Suc i) = edge p i + upTo p i"
  by (simp add: upTo_def)

lemma upTo_nonneg: "0 \<le> upTo p i"
  by (simp add: upTo_def sum_nonneg edge_nonneg)

lemma upTo_mono: "i \<le> j \<Longrightarrow> upTo p i \<le> upTo p j"
  unfolding upTo_def by (intro sum_mono2) (auto simp: edge_nonneg)

lemma connect_eq:
  "connect p i (cs, t) = (cs[i + 1 := edge p i + cs ! i], t + edge p i)"
  by (simp add: connect_def edge_def Let_def)

lemma connect_fold:
  "m \<le> length p \<Longrightarrow>
   fold (connect p) [0 ..< m] (replicate (length p + 1) 0, 0) =
     (map (upTo p) [0 ..< m + 1] @ replicate (length p - m) 0, upTo p m)"
proof (induction m)
  case 0
  show ?case by (simp add: replicate_Suc [symmetric] del: replicate_Suc)
next
  case (Suc m)
  let ?n = "length p"
  have m: "m < ?n" using Suc.prems by simp
  have len: "length (map (upTo p) [0 ..< m + 1]) = m + 1" by simp
  have r: "replicate (?n - m) (0::real) = 0 # replicate (?n - Suc m) 0"
    using m by (metis Suc_diff_Suc replicate_Suc)
  have at: "(map (upTo p) [0 ..< m + 1] @ replicate (?n - m) 0) ! m = upTo p m"
    by (simp add: nth_append)
  have upd: "(map (upTo p) [0 ..< m + 1] @ replicate (?n - m) 0)[m + 1 := x]
               = map (upTo p) [0 ..< m + 1] @ x # replicate (?n - Suc m) 0" for x
    using len by (simp add: r list_update_append del: upt_Suc map_append)
  have "fold (connect p) [0 ..< Suc m] (replicate (?n + 1) 0, 0) =
          connect p m (map (upTo p) [0 ..< m + 1] @ replicate (?n - m) 0, upTo p m)"
    using Suc.IH m by simp
  also have "\<dots> = (map (upTo p) [0 ..< m + 1] @ upTo p (Suc m) # replicate (?n - Suc m) 0,
                     upTo p (Suc m))"
    by (simp only: connect_eq at upd upTo_Suc) (simp add: add.commute)
  also have "\<dots> = (map (upTo p) [0 ..< Suc m + 1] @ replicate (?n - Suc m) 0, upTo p (Suc m))"
    by simp
  finally show ?case .
qed

lemma connections_eq:
  "connections p = (map (upTo p) [0 ..< length p + 1], upTo p (length p))"
  using connect_fold [of "length p" p] by (simp add: connections_def)

lemma connections_nth:
  "i \<le> length p \<Longrightarrow> fst (connections p) ! i = upTo p i"
  by (simp add: connections_eq nth_append del: upt_Suc)

lemma locate_none:
  "(\<And>i. i \<in> set idx \<Longrightarrow> \<not> f64_less (Fin t) (fdiv (cs ! i) L)) \<Longrightarrow>
   locate p cs L t idx = Finite Null"
  by (induction idx) simp_all

lemma locate_first:
  "(\<And>j. j \<in> set before \<Longrightarrow> \<not> f64_less (Fin t) (fdiv (cs ! j) L)) \<Longrightarrow>
   f64_less (Fin t) (fdiv (cs ! i) L) \<Longrightarrow>
   locate p cs L t (before @ i # rest) = onEdge p cs L t i"
  by (induction before) simp_all

lemma Interpolate_eq:
  "Interpolate p v =
     locate p (fst (connections p)) (snd (connections p)) (min 1 (max 0 v))
       [1 ..< length p + 1]"
  by (simp add: Interpolate_def Let_def split: prod.splits)

lemma perimeter_eq: "snd (connections p) = upTo p (length p)"
  by (simp add: connections_eq)

lemma Interpolate_end:
  assumes "0 < snd (connections p)"
  shows "Interpolate p 1 = Finite Null"
proof -
  let ?L = "snd (connections p)"
  have "\<not> f64_less (Fin 1) (fdiv (fst (connections p) ! i) ?L)"
    if "i \<in> set [1 ..< length p + 1]" for i
  proof -
    from that have i: "i \<le> length p" by auto
    have "upTo p i \<le> ?L" using i by (simp add: perimeter_eq upTo_mono)
    then have "upTo p i / ?L \<le> 1" using assms by simp
    then show ?thesis
      using assms i by (simp add: connections_nth fdiv_def)
  qed
  then have "locate p (fst (connections p)) ?L 1 [1 ..< length p + 1] = Finite Null"
    by (intro locate_none) blast
  then show ?thesis
    by (simp add: Interpolate_eq)
qed

lemma Len_zero_iff: "Len v = 0 \<longleftrightarrow> v = Null"
proof -
  have "X v * X v + Y v * Y v = 0 \<longleftrightarrow> X v = 0 \<and> Y v = 0"
    by (simp add: sum_squares_eq_zero_iff)
  moreover have "v = Null \<longleftrightarrow> X v = 0 \<and> Y v = 0"
    by (metis Null_def vec_eq_iff vec_eta vec_sel)
  ultimately show ?thesis
    by (simp add: Len_def)
qed

lemma edge_zero:
  assumes "edge p j = 0" "Suc j < length p"
  shows "p ! Suc j = p ! j"
proof -
  have "Add (p ! Suc j) (Scale (p ! j) (- 1)) = Null"
    using assms by (simp add: edge_def Len_zero_iff)
  then have "X (p ! Suc j) = X (p ! j) \<and> Y (p ! Suc j) = Y (p ! j)"
    by (simp add: Add_def Scale_def Null_def)
  then show ?thesis
    by (metis vec_eta)
qed

lemma flat_start:
  assumes "upTo p i = 0" "i < length p"
  shows "p ! i = p ! 0"
  using assms
proof (induction i)
  case 0
  show ?case by simp
next
  case (Suc i)
  have "edge p i + upTo p i = 0" using Suc.prems(1) by (simp add: upTo_Suc)
  then have e: "edge p i = 0" and u: "upTo p i = 0"
    using edge_nonneg [of p i] upTo_nonneg [of p i] by linarith+
  have "p ! Suc i = p ! i" using e Suc.prems(2) by (rule edge_zero)
  also have "p ! i = p ! 0" using u Suc.prems(2) by (intro Suc.IH) simp_all
  finally show ?case .
qed

lemma Interpolate_start:
  assumes "0 < snd (connections p)"
  shows "Interpolate p 0 = Finite (p ! 0)"
proof -
  let ?L = "snd (connections p)"
  let ?cs = "fst (connections p)"
  let ?n = "length p"
  define i where "i = (LEAST i. 0 < upTo p i)"
  have pos: "0 < upTo p ?n" using assms by (simp add: perimeter_eq)
  have i_pos: "0 < upTo p i" unfolding i_def using pos by (rule LeastI)
  have i_le: "i \<le> ?n" unfolding i_def using pos by (rule Least_le)
  have i_min: "\<not> 0 < upTo p j" if "j < i" for j
    using that unfolding i_def by (rule not_less_Least)
  have i1: "1 \<le> i" using i_pos by (cases i) simp_all
  have "[1 ..< ?n + 1] = [1 ..< i] @ [i ..< ?n + 1]"
    using upt_add_eq_append [of 1 i "?n + 1 - i"] i1 i_le by simp
  moreover have "[i ..< ?n + 1] = i # [Suc i ..< ?n + 1]"
    using i_le by (simp add: upt_conv_Cons del: upt_Suc)
  ultimately have split: "[1 ..< ?n + 1] = [1 ..< i] @ i # [Suc i ..< ?n + 1]"
    by simp
  have before: "\<not> f64_less (Fin 0) (fdiv (?cs ! j) ?L)" if "j \<in> set [1 ..< i]" for j
  proof -
    from that have j: "j < i" by simp
    then have "\<not> 0 < upTo p j" by (rule i_min)
    then show ?thesis
      using assms j i_le by (simp add: connections_nth fdiv_def zero_less_divide_iff)
  qed
  have at: "f64_less (Fin 0) (fdiv (?cs ! i) ?L)"
    using assms i_pos i_le by (simp add: connections_nth fdiv_def)
  have prev: "upTo p (i - 1) = 0"
    using i_min [of "i - 1"] i1 upTo_nonneg [of p "i - 1"] by simp
  have "locate p ?cs ?L 0 [1 ..< ?n + 1] = onEdge p ?cs ?L 0 i"
    unfolding split using before at by (rule locate_first)
  also have "\<dots> = Finite (p ! (i - 1))"
    using assms i_pos i_le prev
    by (simp add: onEdge_def Let_def connections_nth fdiv_def Add_def Scale_def)
  also have "p ! (i - 1) = p ! 0"
    using prev i1 i_le by (intro flat_start) simp_all
  finally show ?thesis
    by (simp add: Interpolate_eq)
qed

lemma perimeter_segment: "snd (connections [vec 1 0, vec 3 0]) = 4"
proof -
  have "edge [vec 1 0, vec 3 0] 0 = 2" "edge [vec 1 0, vec 3 0] 1 = 2"
    by (simp_all add: edge_def Len_def Add_def Scale_def)
  then show ?thesis
    by (simp add: perimeter_eq upTo_def lessThan_Suc numeral_2_eq_2)
qed

lemma perimeter_point: "snd (connections [vec 5 5]) = 0"
proof -
  have "edge [vec 5 5] 0 = 0"
    by (simp add: edge_def Len_def Add_def Scale_def)
  then show ?thesis
    by (simp add: perimeter_eq upTo_def)
qed

lemma perimeter_two_vertices:
  assumes "0 < snd (connections p)"
  shows "2 \<le> length p"
proof (rule ccontr)
  assume "\<not> 2 \<le> length p"
  then consider "length p = 0" | "length p = 1" by linarith
  then have "upTo p (length p) = 0"
  proof cases
    case 1
    then show ?thesis by simp
  next
    case 2
    then have "edge p 0 = 0"
      by (simp add: edge_def Len_def Add_def Scale_def)
    then show ?thesis
      using 2 by (simp add: upTo_def)
  qed
  then show False
    using assms by (simp add: perimeter_eq)
qed

text \<open>
  C1. On a polygon with a perimeter above zero (it has two vertices or more),
  \<^verbatim>\<open>Interpolate(0)\<close> is the first vertex. \<^verbatim>\<open>Interpolate(1)\<close> is not: the last quotient
  \<^verbatim>\<open>connections[pointCount]/length\<close> is 1, the test \<open>1 < 1\<close> fails as every test before
  it, and the function returns \<^verbatim>\<open>Null\<close>, the origin. On the segment from \<open>(1, 0)\<close> to
  \<open>(3, 0)\<close> and back the origin is not the first vertex.
\<close>

theorem Interpolate_ends:
  assumes "0 < snd (connections p)"
  shows "Interpolate p 0 = Finite (p ! 0) \<and> Interpolate p 1 = Finite Null"
  using assms by (simp add: Interpolate_start Interpolate_end)

theorem Interpolate_ends_witness:
  "0 < snd (connections [vec 1 0, vec 3 0]) \<and>
   Interpolate [vec 1 0, vec 3 0] 0 = Finite (vec 1 0) \<and>
   Interpolate [vec 1 0, vec 3 0] 1 = Finite Null \<and>
   Null \<noteq> vec 1 0"
proof -
  have pos: "0 < snd (connections [vec 1 0, vec 3 0])"
    by (simp add: perimeter_segment)
  from Interpolate_ends [OF pos] pos show ?thesis
    by (simp add: Null_def)
qed

text \<open>
  C4. On a polygon with the perimeter zero every quotient \<^verbatim>\<open>connections[i]/length\<close> is
  \<open>0 / 0\<close>, NaN, no test succeeds and \<^verbatim>\<open>Interpolate\<close> returns \<^verbatim>\<open>Null\<close> for every
  argument: a finite point, the origin, which is the first vertex only when that is the
  origin. The polygon of the one vertex \<open>(5, 5)\<close> gives \<open>(0, 0)\<close>.
\<close>

theorem Interpolate_degenerate:
  assumes "snd (connections p) = 0"
  shows "Interpolate p v = Finite Null"
proof -
  have "\<not> f64_less (Fin t) (fdiv (fst (connections p) ! i) (snd (connections p)))"
    if "i \<in> set [1 ..< length p + 1]" for i t
  proof -
    from that have i: "i \<le> length p" by auto
    have "upTo p i \<le> upTo p (length p)" using i by (rule upTo_mono)
    then have "upTo p i = 0"
      using assms upTo_nonneg [of p i] by (simp add: perimeter_eq)
    then show ?thesis
      using assms i by (simp add: connections_nth fdiv_def)
  qed
  then show ?thesis
    unfolding Interpolate_eq by (intro locate_none) blast
qed

theorem Interpolate_degenerate_witness:
  "snd (connections [vec 5 5]) = 0 \<and>
   Interpolate [vec 5 5] (1 / 2) = Finite Null \<and>
   Null \<noteq> [vec 5 5] ! 0"
  using Interpolate_degenerate [OF perimeter_point, of "1 / 2"] perimeter_point
  by (simp add: Null_def)

section \<open>The car model: properties\<close>



lemma Update_Tension [simp]: "Tension (Update delta car) = Tension car"
  by (simp add: Update_def Let_def)



lemma updates_Suc: "updates delta (Suc n) car = Update delta (updates delta n car)"
  by (simp add: updates_def)

lemma updates_0 [simp]: "updates delta 0 car = car"
  by (simp add: updates_def)

lemma updates_Tension [simp]: "Tension (updates delta n car) = Tension car"
  by (induction n) (simp_all add: updates_Suc)




text \<open>
  C8. A call \<^verbatim>\<open>Update(0)\<close> changes the acceleration only, which it multiplies by the
  tension: position and velocity are the same, and so are rotation, mass, size, bounds and
  the two factors, for every car.
\<close>

theorem Update_zero:
  "Update 0 car = car\<lparr>Acceleration := Scale (Acceleration car) (Tension car)\<rparr>"
  by (simp add: Update_def Let_def Add_def Scale_def RotateAround_def Null_def)

text \<open>
  C10. \<^verbatim>\<open>Break\<close> does not read its argument: two calls with different arguments end in
  the same car. With a sensitivity other than zero that car has the acceleration scaled by
  tension / sensitivity and the velocity scaled by the tension.
\<close>

theorem Break_ignores_delta:
  "Break d1 car = Break d2 car \<and>
   (Sensitivity car \<noteq> 0 \<longrightarrow>
      Break d1 car =
        Finite (car\<lparr>Acceleration := Scale (Acceleration car) (Tension car / Sensitivity car),
                    Velocity := Scale (Velocity car) (Tension car)\<rparr>))"
  by (simp add: Break_def fdiv_def)

theorem Break_ignores_delta_witness:
  "Sensitivity (NewCar 1 100 100 100 50) \<noteq> 0 \<and>
   Break 10 (NewCar 1 100 100 100 50) = Break 68 (NewCar 1 100 100 100 50) \<and>
   Break 10 (NewCar 1 100 100 100 50) =
     Finite ((NewCar 1 100 100 100 50)
       \<lparr>Acceleration := Scale (Acceleration (NewCar 1 100 100 100 50))
                            (Tension (NewCar 1 100 100 100 50) / Sensitivity (NewCar 1 100 100 100 50)),
        Velocity := Scale (Velocity (NewCar 1 100 100 100 50)) (Tension (NewCar 1 100 100 100 50))\<rparr>)"
proof -
  have s: "Sensitivity (NewCar 1 100 100 100 50) \<noteq> 0"
    by (simp add: NewCar_def Let_def)
  from Break_ignores_delta [of 10 "NewCar 1 100 100 100 50" 68] s show ?thesis
    by blast
qed







section \<open>The controller: properties\<close>

lemma Len_Null [simp]: "Len Null = 0"
  by (simp add: Len_def Null_def)

lemma Norm_Null [simp]: "Norm Null = Null"
  by (simp add: Norm_def)

lemma diffAngle_at_rest:
  assumes "Velocity car = Null" "Rotation car = 0"
  shows "diffAngle p car = 0"
proof -
  have "RotateAround (Norm (Velocity car)) Null (Rotation car) = Null"
    using assms by (simp add: RotateAround_def Null_def [symmetric]) 
  then show ?thesis
    by (simp add: diffAngle_def AngleBetween_def Det_def Dot_def Null_def Atan2_def)
qed

lemma steer_at_rest:
  "Velocity car = Null \<Longrightarrow> Rotation car = 0 \<Longrightarrow> steer delta p car = car"
  by (simp add: steer_def diffAngle_at_rest)

lemma of_signal_eq:
  "of_signal p car =
     (if Len (diffVector p car) < 30 then NaN
      else if Len (diffVector p car) = 30 then NInf
      else Fin (ln (Len (diffVector p car) - 30) / 10))"
  by (simp add: of_signal_def Log_def logArgument_def fdiv_def)

lemma of_signal_positive:
  "f64_greater (of_signal p car) (Fin 0) \<longleftrightarrow>
     30 < Len (diffVector p car) \<and> 0 < ln (Len (diffVector p car) - 30) / 10"
  by (simp add: of_signal_eq f64_greater_def)

lemma of_signal_positive_31:
  "f64_greater (of_signal p car) (Fin 0) \<longleftrightarrow> 31 < Len (diffVector p car)"
  by (auto simp add: of_signal_positive)

lemma Feed_both:
  assumes "Velocity car = Null" "Rotation car = 0"
    and "31 < Len (diffVector p car)" "Len (diffVector p car) < 100"
  shows "Feed delta p car = andThen (Accelerate 0.1 car) (Break (br p car))"
  using assms by (simp add: Feed_def Let_def steer_at_rest of_signal_positive_31 br_def)

lemma TurnCenter_NewCar:
  "TurnCenter (NewCar mass x y width height) = vec (0.3 * width) (0.5 * height)"
  by (simp add: TurnCenter_def NewCar_def Let_def Center_def Translate_def NewPolygon_def
      NullVector_def Null_def AddX_def AddY_def Add_def Scale_def)

lemma sqrt_1025: "31 < sqrt 1025" "sqrt 1025 < 100"
proof -
  have "sqrt (31\<^sup>2) < sqrt 1025"
    by (subst real_sqrt_less_iff) simp
  then show "31 < sqrt 1025" by simp
  have "sqrt 1025 < sqrt (100\<^sup>2)"
    by (subst real_sqrt_less_iff) simp
  then show "sqrt 1025 < 100" by simp
qed

lemma diffVector_scenario:
  "diffVector (vec 50 0) (NewCar mass 0 0 100 50) = vec 20 (- 25)"
  by (simp add: diffVector_def TurnCenter_NewCar Add_def Scale_def) (simp add: NewCar_def Let_def)

lemma diffVector_near:
  "diffVector (vec 50 25) (NewCar 1 0 0 100 50) = vec 20 0"
  by (simp add: diffVector_def TurnCenter_NewCar Add_def Scale_def) (simp add: NewCar_def Let_def)

text \<open>
  C3, as the code has it. \<^verbatim>\<open>Feed\<close> has no test of the distance before the logarithm:
  \<^verbatim>\<open>of\<close> is computed on every call and is NaN below the distance 30, \<open>-Inf\<close> at 30 and
  \<open>ln (distance - 30) / 10\<close> above. The test \<^verbatim>\<open>of > 0\<close> is false on NaN and on
  \<open>-Inf\<close>, so \<^verbatim>\<open>Accelerate(0.1)\<close> is called exactly when the distance is above 30 and
  \<open>ln (distance - 30) / 10\<close> is positive.
\<close>

theorem Feed_throttle:
  "of_signal p car =
     (if Len (diffVector p car) < 30 then NaN
      else if Len (diffVector p car) = 30 then NInf
      else Fin (ln (Len (diffVector p car) - 30) / 10)) \<and>
   Feed delta p car =
     (let car1 = steer delta p car;
          car2 = (if 30 < Len (diffVector p car) \<and> 0 < ln (Len (diffVector p car) - 30) / 10
                  then Accelerate 0.1 car1 else Finite car1)
      in if br p car > 0 then andThen car2 (Break (br p car)) else car2)"
  by (simp only: Feed_def of_signal_positive of_signal_eq [symmetric])

text \<open>
  C3, as the claim has it, fails: with the target 20 away from the pivot of the car,
  \<^verbatim>\<open>math.Log\<close> is handed \<open>-10\<close> and \<^verbatim>\<open>of\<close> is NaN. The logarithm of a negative number
  has been taken, not skipped.
\<close>

theorem Feed_throttle_counterexample:
  "Len (diffVector (vec 50 25) (NewCar 1 0 0 100 50)) \<le> 30 \<and>
   logArgument (vec 50 25) (NewCar 1 0 0 100 50) = - 10 \<and>
   of_signal (vec 50 25) (NewCar 1 0 0 100 50) = NaN"
proof -
  have "sqrt 400 = sqrt (20\<^sup>2)" by simp
  then have "sqrt 400 = 20" by (simp only: real_sqrt_abs)
  then have "Len (diffVector (vec 50 25) (NewCar 1 0 0 100 50)) = 20"
    by (simp add: diffVector_near Len_def)
  then show ?thesis
    by (simp add: of_signal_eq logArgument_def)
qed

text \<open>
  C7. A car at position \<open>(0, 0)\<close> with rotation 0 and velocity \<open>(0, 0)\<close>, fed the target
  \<open>(50, 0)\<close>, is not turned and is both accelerated by 0.1 and braked in the one call,
  the acceleration first. This holds for the car of the program, 100 by 50, whose pivot
  is at \<open>(30, 25)\<close> and \<open>sqrt 1025\<close> from the target (between 31 and 100), and for every car
  whose pivot is at its position, where the distance is 50 and the brake signal 50.
\<close>

theorem Feed_scenario:
  "Len (diffVector (vec 50 0) (NewCar mass 0 0 100 50)) = sqrt 1025 \<and>
   Feed delta (vec 50 0) (NewCar mass 0 0 100 50) =
     andThen (Accelerate 0.1 (NewCar mass 0 0 100 50)) (Break (100 - sqrt 1025)) \<and>
   (Position car = Null \<and> Rotation car = 0 \<and> Velocity car = Null \<and> TurnCenter car = Null \<longrightarrow>
      Len (diffVector (vec 50 0) car) = 50 \<and>
      Feed delta (vec 50 0) car = andThen (Accelerate 0.1 car) (Break 50))"
proof (intro conjI impI)
  let ?car = "NewCar mass 0 0 100 50"
  show d: "Len (diffVector (vec 50 0) ?car) = sqrt 1025"
    by (simp add: diffVector_scenario Len_def)
  have "Velocity ?car = Null" "Rotation ?car = 0"
    by (simp_all add: NewCar_def Let_def NullVector_def)
  then have "Feed delta (vec 50 0) ?car = andThen (Accelerate 0.1 ?car) (Break (br (vec 50 0) ?car))"
    using sqrt_1025 by (intro Feed_both) (simp_all add: d)
  then show "Feed delta (vec 50 0) ?car = andThen (Accelerate 0.1 ?car) (Break (100 - sqrt 1025))"
    using d by (simp add: br_def)
next
  assume a: "Position car = Null \<and> Rotation car = 0 \<and> Velocity car = Null \<and> TurnCenter car = Null"
  have "sqrt 2500 = sqrt (50\<^sup>2)" by simp
  then have s: "sqrt 2500 = 50" by (simp only: real_sqrt_abs)
  have "diffVector (vec 50 0) car = vec 50 0"
    using a by (simp add: diffVector_def Add_def Scale_def Null_def)
  then show d: "Len (diffVector (vec 50 0) car) = 50"
    using s by (simp add: Len_def)
  have "Feed delta (vec 50 0) car = andThen (Accelerate 0.1 car) (Break (br (vec 50 0) car))"
    using a by (intro Feed_both) (simp_all add: d)
  then show "Feed delta (vec 50 0) car = andThen (Accelerate 0.1 car) (Break 50)"
    using d by (simp add: br_def)
qed

theorem Feed_scenario_witness:
  "Position (NewCar 1 0 0 0 0) = Null \<and> Rotation (NewCar 1 0 0 0 0) = 0 \<and>
   Velocity (NewCar 1 0 0 0 0) = Null \<and> TurnCenter (NewCar 1 0 0 0 0) = Null \<and>
   Len (diffVector (vec 50 0) (NewCar 1 0 0 0 0)) = 50 \<and>
   Feed (1 / 60) (vec 50 0) (NewCar 1 0 0 0 0) =
     andThen (Accelerate 0.1 (NewCar 1 0 0 0 0)) (Break 50) \<and>
   Feed (1 / 60) (vec 50 0) (NewCar 1 0 0 100 50) =
     andThen (Accelerate 0.1 (NewCar 1 0 0 100 50)) (Break (100 - sqrt 1025))"
proof -
  have a: "Position (NewCar 1 0 0 0 0) = Null \<and> Rotation (NewCar 1 0 0 0 0) = 0 \<and>
           Velocity (NewCar 1 0 0 0 0) = Null \<and> TurnCenter (NewCar 1 0 0 0 0) = Null"
    by (simp add: TurnCenter_NewCar) (simp add: NewCar_def Let_def NullVector_def Null_def)
  from Feed_scenario [of 1 "1 / 60" "NewCar 1 0 0 0 0"] a show ?thesis
    by blast
qed

section \<open>The random path: properties\<close>







end
